theory Spec2Isabelle
  imports Complex_Main
begin

section \<open>Configuration (config.py)\<close>

text \<open>
  The thresholds and cooldowns of \<^verbatim>\<open>config.py\<close>. Python floats are modelled as
  reals: the decision logic is studied over exact arithmetic.
\<close>

definition CLICK_COOLDOWN :: real where "CLICK_COOLDOWN = 0.15"
definition SCROLL_COOLDOWN :: real where "SCROLL_COOLDOWN = 0.05"
definition FRAME_WIDTH :: nat where "FRAME_WIDTH = 640"
definition FRAME_HEIGHT :: nat where "FRAME_HEIGHT = 480"
definition PINCH_THRESHOLD :: real where "PINCH_THRESHOLD = 0.05"
definition FIST_THRESHOLD :: real where "FIST_THRESHOLD = 0.08"
definition SWIPE_THRESHOLD :: real where "SWIPE_THRESHOLD = 0.04"
definition SMOOTH_FACTOR :: real where "SMOOTH_FACTOR = 0.5"
definition SCREEN_PADDING :: int where "SCREEN_PADDING = 50"

section \<open>Landmarks and static pose detectors (gesture\_detector.py)\<close>

text \<open>
  A landmark has the attributes \<^verbatim>\<open>x\<close>, \<^verbatim>\<open>y\<close>, \<^verbatim>\<open>z\<close>; the fields carry the
  prefix \<open>lm_\<close> so that the variables \<open>x\<close>, \<open>y\<close>, \<open>z\<close> stay free.
\<close>

record landmark =
  lm_x :: real
  lm_y :: real
  lm_z :: real

text \<open>The dictionary returned by \<^verbatim>\<open>get_finger_tip_positions\<close>: seven fixed keys.\<close>

record positions =
  thumb :: landmark
  index :: landmark
  middle :: landmark
  ring :: landmark
  pinky :: landmark
  wrist :: landmark
  palm :: landmark

definition calculate_distance :: "landmark \<Rightarrow> landmark \<Rightarrow> real" where
  "calculate_distance point1 point2 =
     sqrt ((lm_x point1 - lm_x point2)\<^sup>2 +
           (lm_y point1 - lm_y point2)\<^sup>2 +
           (lm_z point1 - lm_z point2)\<^sup>2)"

definition detect_pinch :: "positions \<Rightarrow> bool" where
  "detect_pinch ps =
     (let thumb_index_dist = calculate_distance (thumb ps) (index ps)
      in thumb_index_dist < PINCH_THRESHOLD)"

definition detect_only_index_up :: "positions \<Rightarrow> bool" where
  "detect_only_index_up ps =
     (let index_dist = calculate_distance (index ps) (palm ps);
          middle_dist = calculate_distance (middle ps) (palm ps);
          ring_dist = calculate_distance (ring ps) (palm ps);
          pinky_dist = calculate_distance (pinky ps) (palm ps)
      in index_dist > 0.14 \<and> middle_dist < 0.12 \<and> ring_dist < 0.12 \<and> pinky_dist < 0.12)"

definition detect_thumb_index_open :: "positions \<Rightarrow> bool" where
  "detect_thumb_index_open ps =
     (let thumb_dist = calculate_distance (thumb ps) (palm ps);
          index_dist = calculate_distance (index ps) (palm ps);
          thumb_index_dist = calculate_distance (thumb ps) (index ps);
          both_extended = (thumb_dist > 0.12 \<and> index_dist > 0.15);
          not_pinching = (thumb_index_dist > PINCH_THRESHOLD)
      in both_extended \<and> not_pinching)"

definition detect_open_hand :: "positions \<Rightarrow> bool" where
  "detect_open_hand ps =
     (let thumb_dist = calculate_distance (thumb ps) (palm ps);
          index_dist = calculate_distance (index ps) (palm ps);
          middle_dist = calculate_distance (middle ps) (palm ps);
          ring_dist = calculate_distance (ring ps) (palm ps);
          pinky_dist = calculate_distance (pinky ps) (palm ps)
      in thumb_dist > 0.13 \<and> index_dist > 0.15 \<and> middle_dist > 0.14 \<and>
         ring_dist > 0.14 \<and> pinky_dist > 0.14)"

definition detect_fist :: "positions \<Rightarrow> bool" where
  "detect_fist ps =
     (let distances = [calculate_distance (thumb ps) (palm ps),
                       calculate_distance (index ps) (palm ps),
                       calculate_distance (middle ps) (palm ps),
                       calculate_distance (ring ps) (palm ps),
                       calculate_distance (pinky ps) (palm ps)];
          avg_distance = sum_list distances / real (length distances);
          max_distance = Max (set distances);
          thumb_dist = distances ! 0;
          index_dist = distances ! 1
      in avg_distance < FIST_THRESHOLD \<and> max_distance < FIST_THRESHOLD * 2.0 \<and>
         thumb_dist < 0.10 \<and> index_dist < 0.10)"

definition get_index_position :: "positions \<Rightarrow> nat \<Rightarrow> nat \<Rightarrow> real \<times> real" where
  "get_index_position ps frame_width frame_height =
     (lm_x (index ps) * real frame_width, lm_y (index ps) * real frame_height)"

section \<open>The detector's state and its results\<close>

text \<open>
  The instance fields set by \<^verbatim>\<open>GestureDetector.__init__\<close> that the recognition
  reads or writes. \<^verbatim>\<open>None\<close> is \<open>None\<close>; timestamps are the values of
  \<^verbatim>\<open>time.time()\<close>.
\<close>

record detector =
  prev_open_hand_y :: "real option"
  prev_index_pos :: "(real \<times> real) option"
  last_click_time :: real
  last_right_click_time :: real
  last_scroll_time :: real
  is_pinching :: bool
  pinch_start_time :: real
  current_gesture :: string

definition init_detector :: detector where
  "init_detector =
     \<lparr>prev_open_hand_y = None, prev_index_pos = None, last_click_time = 0,
      last_right_click_time = 0, last_scroll_time = 0, is_pinching = False,
      pinch_start_time = 0, current_gesture = ''None''\<rparr>"

text \<open>
  The returned dictionary \<^verbatim>\<open>{'type': ..., 'data': ...}\<close>: the type strings form an
  enumeration, the data is absent, a position pair or a scroll direction.
\<close>

datatype gesture_type =
  g_none | left_press | left_hold | pinch_drag | left_release | right_click | move | scroll

datatype scroll_dir = up | down

datatype gesture_data = Position real real | Direction scroll_dir

record gesture_result =
  gtype :: gesture_type
  gdata :: "gesture_data option"

definition result :: "gesture_type \<Rightarrow> gesture_data option \<Rightarrow> gesture_result" where
  "result ty d = \<lparr>gtype = ty, gdata = d\<rparr>"

text \<open>The two strings \<^verbatim>\<open>detect_open_hand_swipe\<close> may return besides \<^verbatim>\<open>None\<close>.\<close>

datatype swipe = scroll_up | scroll_down

definition detect_open_hand_swipe ::
  "detector \<Rightarrow> positions \<Rightarrow> nat \<Rightarrow> swipe option \<times> detector" where
  "detect_open_hand_swipe s ps frame_height =
     (if \<not> detect_open_hand ps then (None, s\<lparr>prev_open_hand_y := None\<rparr>)
      else
        let current_y = lm_y (palm ps) * real frame_height in
        (case prev_open_hand_y s of
           None \<Rightarrow> (None, s\<lparr>prev_open_hand_y := Some current_y\<rparr>)
         | Some prev \<Rightarrow>
             let y_diff = prev - current_y;
                 threshold = real frame_height * SWIPE_THRESHOLD
             in if y_diff > threshold
                then (Some scroll_down, s\<lparr>prev_open_hand_y := Some current_y\<rparr>)
                else if y_diff < - threshold
                then (Some scroll_up, s\<lparr>prev_open_hand_y := Some current_y\<rparr>)
                else (None, s)))"

section \<open>recognize\_gesture\<close>

text \<open>
  The body of \<^verbatim>\<open>recognize_gesture\<close> is a sequence of blocks; each either returns
  a result (\<open>Some\<close>) or falls through to the next block (\<open>None\<close>), and each may
  update the detector. The blocks that occur several times in the source with
  identical text are defined once and used at each occurrence.
\<close>

type_synonym block = "detector \<Rightarrow> gesture_result option \<times> detector"

definition or_else :: "block \<Rightarrow> (detector \<Rightarrow> gesture_result \<times> detector) \<Rightarrow>
    detector \<Rightarrow> gesture_result \<times> detector" where
  "or_else blk rest s =
     (case blk s of (Some r, s') \<Rightarrow> (r, s') | (None, s') \<Rightarrow> rest s')"

text \<open>The press / hold / drag logic (lines 280--308, 389--417 and 464--492).\<close>

definition pinch_press_or_hold :: "positions \<Rightarrow> nat \<Rightarrow> nat \<Rightarrow> real \<Rightarrow> block" where
  "pinch_press_or_hold ps frame_width frame_height current_time s =
     (if \<not> is_pinching s then
        (if current_time - last_click_time s > CLICK_COOLDOWN
         then (Some (result left_press None),
               s\<lparr>is_pinching := True, pinch_start_time := current_time,
                 last_click_time := current_time,
                 current_gesture := ''Pinch Start (Left Press)''\<rparr>)
         else (None, s))
      else
        let pinch_duration = current_time - pinch_start_time s in
        if pinch_duration > 1.0
        then (let index_pos = get_index_position ps frame_width frame_height
              in (Some (result pinch_drag (Some (Position (fst index_pos) (snd index_pos)))),
                  s\<lparr>current_gesture := ''Pinch Hold + Move (Dragging)''\<rparr>))
        else (Some (result left_hold None),
              s\<lparr>current_gesture := ''Pinch Hold (Holding)''\<rparr>))"

text \<open>The release logic (lines 311--317, 420--426 and 495--501).\<close>

definition pinch_release :: block where
  "pinch_release s =
     (if is_pinching s
      then (Some (result left_release None),
            s\<lparr>is_pinching := False, current_gesture := ''Pinch Release''\<rparr>)
      else (None, s))"

text \<open>Pinch block (lines 278--317 and 387--426).\<close>

definition pinch_block :: "positions \<Rightarrow> nat \<Rightarrow> nat \<Rightarrow> real \<Rightarrow> block" where
  "pinch_block ps frame_width frame_height current_time s =
     (if detect_pinch ps
      then pinch_press_or_hold ps frame_width frame_height current_time s
      else pinch_release s)"

text \<open>Fist block (lines 320--334, 429--443 and 504--518).\<close>

definition fist_block :: "positions \<Rightarrow> real \<Rightarrow> block" where
  "fist_block ps current_time s =
     (if detect_fist ps then
        (if current_time - last_right_click_time s > CLICK_COOLDOWN
         then (Some (result right_click None),
               s\<lparr>current_gesture := ''Fist (Right Click)'',
                 last_right_click_time := current_time\<rparr>)
         else (Some (result g_none None), s\<lparr>current_gesture := ''Fist (Cooldown)''\<rparr>))
      else (None, s))"

text \<open>Index-only block (lines 337--343, 446--452 and 521--527).\<close>

definition index_block :: "positions \<Rightarrow> nat \<Rightarrow> nat \<Rightarrow> block" where
  "index_block ps frame_width frame_height s =
     (if detect_only_index_up ps
      then (let index_pos = get_index_position ps frame_width frame_height
            in (Some (result move (Some (Position (fst index_pos) (snd index_pos)))),
                s\<lparr>current_gesture := ''Move (Index Only)''\<rparr>))
      else (None, s))"

text \<open>Thumb-and-index-open block (lines 346--351, 379--384 and 455--460).\<close>

definition thumb_index_open_block :: "positions \<Rightarrow> block" where
  "thumb_index_open_block ps s =
     (if detect_thumb_index_open ps
      then (Some (result g_none None),
            s\<lparr>current_gesture := ''Thumb + Index Open (No Action)''\<rparr>)
      else (None, s))"

text \<open>
  Open-hand swipe block (lines 354--376). The helper returns one of the two swipe
  strings or \<^verbatim>\<open>None\<close>, so one of the two inner returns is always taken when the
  outer condition holds.
\<close>

definition open_hand_block :: "positions \<Rightarrow> nat \<Rightarrow> real \<Rightarrow> block" where
  "open_hand_block ps frame_height current_time s =
     (if detect_open_hand ps then
        (case detect_open_hand_swipe s ps frame_height of (swipe_result, s1) \<Rightarrow>
           if swipe_result \<noteq> None \<and> current_time - last_scroll_time s1 > SCROLL_COOLDOWN
           then
             (let s2 = s1\<lparr>last_scroll_time := current_time\<rparr> in
              case swipe_result of
                Some scroll_up \<Rightarrow>
                  (Some (result scroll (Some (Direction up))),
                   s2\<lparr>current_gesture := ''Open Hand Swipe Down (Scroll UP)''\<rparr>)
              | Some scroll_down \<Rightarrow>
                  (Some (result scroll (Some (Direction down))),
                   s2\<lparr>current_gesture := ''Open Hand Swipe Up (Scroll DOWN)''\<rparr>)
              | None \<Rightarrow> (None, s2))
           else (Some (result g_none None), s1\<lparr>current_gesture := ''Open Hand Ready''\<rparr>))
      else (None, s))"

text \<open>
  The block at lines 463--501: the condition is \<^verbatim>\<open>detect_open_hand\<close>, the branches
  are the press / hold / drag logic and the release logic of the pinch block.
\<close>

definition open_hand_pinch_block :: "positions \<Rightarrow> nat \<Rightarrow> nat \<Rightarrow> real \<Rightarrow> block" where
  "open_hand_pinch_block ps frame_width frame_height current_time s =
     (if detect_open_hand ps
      then pinch_press_or_hold ps frame_width frame_height current_time s
      else pinch_release s)"

text \<open>The final statements (lines 530--534).\<close>

definition idle :: "detector \<Rightarrow> gesture_result \<times> detector" where
  "idle s = (result g_none None, s\<lparr>current_gesture := ''Idle''\<rparr>)"

text \<open>
  \<open>results\<close> is \<open>None\<close> when \<^verbatim>\<open>results.multi_hand_landmarks\<close> is falsy, and
  \<open>Some ps\<close> with the fingertip positions of the first hand otherwise;
  \<open>frame_shape\<close> is (height, width); \<open>current_time\<close> is the value read from
  \<^verbatim>\<open>time.time()\<close>.
\<close>

definition recognize_gesture ::
  "detector \<Rightarrow> positions option \<Rightarrow> nat \<times> nat \<Rightarrow> real \<Rightarrow> gesture_result \<times> detector" where
  "recognize_gesture s results frame_shape current_time =
     (case results of
        None \<Rightarrow>
          (result g_none None,
           s\<lparr>current_gesture := ''None'', prev_open_hand_y := None, is_pinching := False\<rparr>)
      | Some ps \<Rightarrow>
          (case frame_shape of (frame_height, frame_width) \<Rightarrow>
            or_else (pinch_block ps frame_width frame_height current_time)
           (or_else (fist_block ps current_time)
           (or_else (index_block ps frame_width frame_height)
           (or_else (thumb_index_open_block ps)
           (or_else (open_hand_block ps frame_height current_time)
           (or_else (thumb_index_open_block ps)
           (or_else (pinch_block ps frame_width frame_height current_time)
           (or_else (fist_block ps current_time)
           (or_else (index_block ps frame_width frame_height)
           (or_else (thumb_index_open_block ps)
           (or_else (open_hand_pinch_block ps frame_width frame_height current_time)
           (or_else (fist_block ps current_time)
           (or_else (index_block ps frame_width frame_height)
            idle)))))))))))) s))"

text \<open>
  The decision chain as the specification words it: one pass through pinch, fist,
  index-only, thumb-index-open and open-hand swipe, then idle; a lost hand resets the
  session. It is compared with \<open>recognize_gesture\<close> below.
\<close>

definition decision_chain ::
  "detector \<Rightarrow> positions option \<Rightarrow> nat \<times> nat \<Rightarrow> real \<Rightarrow> gesture_result \<times> detector" where
  "decision_chain s results frame_shape current_time =
     (case results of
        None \<Rightarrow>
          (result g_none None,
           s\<lparr>current_gesture := ''None'', prev_open_hand_y := None, is_pinching := False\<rparr>)
      | Some ps \<Rightarrow>
          (case frame_shape of (frame_height, frame_width) \<Rightarrow>
            or_else (pinch_block ps frame_width frame_height current_time)
           (or_else (fist_block ps current_time)
           (or_else (index_block ps frame_width frame_height)
           (or_else (thumb_index_open_block ps)
           (or_else (open_hand_block ps frame_height current_time)
            idle)))) s))"

section \<open>The pointer mapper (mouse\_controller.py)\<close>

definition SCROLL_SENSITIVITY :: int where "SCROLL_SENSITIVITY = 8"

datatype error = ZeroDivisionError

text \<open>Python's \<^verbatim>\<open>int()\<close> on a float truncates towards zero.\<close>

definition py_int :: "real \<Rightarrow> int" where
  "py_int r = (if r \<ge> 0 then \<lfloor>r\<rfloor> else \<lceil>r\<rceil>)"

record mouse_controller =
  screen_width :: int
  screen_height :: int
  prev_mouse_x :: "real option"
  prev_mouse_y :: "real option"
  map_width :: int
  map_height :: int

text \<open>\<^verbatim>\<open>__init__\<close>, with the screen size reported by the backend as parameters.\<close>

definition init_mouse :: "int \<Rightarrow> int \<Rightarrow> mouse_controller" where
  "init_mouse w h =
     \<lparr>screen_width = w, screen_height = h, prev_mouse_x = None, prev_mouse_y = None,
      map_width = w - 2 * SCREEN_PADDING, map_height = h - 2 * SCREEN_PADDING\<rparr>"

definition map_coordinates ::
  "mouse_controller \<Rightarrow> real \<Rightarrow> real \<Rightarrow> nat \<Rightarrow> nat \<Rightarrow> error + (int \<times> int)" where
  "map_coordinates mc hand_x hand_y frame_width frame_height =
     (if frame_width = 0 \<or> frame_height = 0 then Inl ZeroDivisionError
      else
        let norm_x = hand_x / real frame_width;
            norm_y = hand_y / real frame_height;
            screen_x = real_of_int SCREEN_PADDING + norm_x * real_of_int (map_width mc);
            screen_y = real_of_int SCREEN_PADDING + norm_y * real_of_int (map_height mc);
            screen_x' = max 0 (min (real_of_int (screen_width mc - 1)) screen_x);
            screen_y' = max 0 (min (real_of_int (screen_height mc - 1)) screen_y)
        in Inr (py_int screen_x', py_int screen_y'))"

definition smooth_coordinates ::
  "mouse_controller \<Rightarrow> int \<Rightarrow> int \<Rightarrow> (int \<times> int) \<times> mouse_controller" where
  "smooth_coordinates mc current_x current_y =
     (case (prev_mouse_x mc, prev_mouse_y mc) of
        (Some px, Some py) \<Rightarrow>
          let smooth_x = SMOOTH_FACTOR * px + (1 - SMOOTH_FACTOR) * real_of_int current_x;
              smooth_y = SMOOTH_FACTOR * py + (1 - SMOOTH_FACTOR) * real_of_int current_y
          in ((py_int smooth_x, py_int smooth_y),
              mc\<lparr>prev_mouse_x := Some smooth_x, prev_mouse_y := Some smooth_y\<rparr>)
      | _ \<Rightarrow>
          ((current_x, current_y),
           mc\<lparr>prev_mouse_x := Some (real_of_int current_x),
              prev_mouse_y := Some (real_of_int current_y)\<rparr>))"

text \<open>
  The calls into the pointer backend are recorded as actions; the backend itself is
  outside the model and is taken not to raise. In \<open>execute_gesture\<close> a pair of
  type and data that \<open>recognize_gesture\<close> never returns is taken as no action.
\<close>

datatype pointer_action =
  MoveTo int int | MouseDown | MouseUp | ClickRight | ScrollWheel int

definition move_mouse ::
  "mouse_controller \<Rightarrow> real \<Rightarrow> real \<Rightarrow> nat \<Rightarrow> nat \<Rightarrow>
     error + (pointer_action \<times> mouse_controller)" where
  "move_mouse mc hand_x hand_y frame_width frame_height =
     (case map_coordinates mc hand_x hand_y frame_width frame_height of
        Inl e \<Rightarrow> Inl e
      | Inr (screen_x, screen_y) \<Rightarrow>
          (case smooth_coordinates mc screen_x screen_y of
             ((smooth_x, smooth_y), mc') \<Rightarrow> Inr (MoveTo smooth_x smooth_y, mc')))"

definition scroll_action :: "scroll_dir \<Rightarrow> pointer_action" where
  "scroll_action direction =
     (let scroll_amount = SCROLL_SENSITIVITY * 3
      in case direction of up \<Rightarrow> ScrollWheel scroll_amount
                         | down \<Rightarrow> ScrollWheel (- scroll_amount))"

definition execute_gesture ::
  "mouse_controller \<Rightarrow> gesture_result \<Rightarrow> nat \<Rightarrow> nat \<Rightarrow>
     error + (pointer_action option \<times> mouse_controller)" where
  "execute_gesture mc gesture_result frame_width frame_height =
     (case (gtype gesture_result, gdata gesture_result) of
        (move, Some (Position hand_x hand_y)) \<Rightarrow>
          (case move_mouse mc hand_x hand_y frame_width frame_height of
             Inl e \<Rightarrow> Inl e | Inr (a, mc') \<Rightarrow> Inr (Some a, mc'))
      | (left_press, _) \<Rightarrow> Inr (Some MouseDown, mc)
      | (left_hold, _) \<Rightarrow> Inr (None, mc)
      | (pinch_drag, Some (Position hand_x hand_y)) \<Rightarrow>
          (case move_mouse mc hand_x hand_y frame_width frame_height of
             Inl e \<Rightarrow> Inl e | Inr (a, mc') \<Rightarrow> Inr (Some a, mc'))
      | (left_release, _) \<Rightarrow> Inr (Some MouseUp, mc)
      | (right_click, _) \<Rightarrow> Inr (Some ClickRight, mc)
      | (scroll, Some (Direction direction)) \<Rightarrow> Inr (Some (scroll_action direction), mc)
      | _ \<Rightarrow> Inr (None, mc))"

definition reset_smoothing :: "mouse_controller \<Rightarrow> mouse_controller" where
  "reset_smoothing mc = mc\<lparr>prev_mouse_x := None, prev_mouse_y := None\<rparr>"

section \<open>The frame loop (main.py)\<close>

text \<open>
  One pass of the loop body of \<^verbatim>\<open>main\<close> (lines 94--115): recognise, then either
  execute the gesture or reset the smoothing. An exception of \<^verbatim>\<open>execute_gesture\<close>
  is caught and printed; the controller is then as it was.
\<close>

type_synonym frame = "positions option \<times> (nat \<times> nat) \<times> real"

definition main_step ::
  "detector \<times> mouse_controller \<Rightarrow> frame \<Rightarrow>
     (gesture_result \<times> pointer_action option) \<times> (detector \<times> mouse_controller)" where
  "main_step st fr =
     (case st of (d, mc) \<Rightarrow>
      case fr of (results, frame_shape, current_time) \<Rightarrow>
      case recognize_gesture d results frame_shape current_time of (gesture_result, d') \<Rightarrow>
        if gtype gesture_result \<noteq> g_none then
          (case execute_gesture mc gesture_result FRAME_WIDTH FRAME_HEIGHT of
             Inl e \<Rightarrow> ((gesture_result, None), (d', mc))
           | Inr (a, mc') \<Rightarrow> ((gesture_result, a), (d', mc')))
        else ((gesture_result, None), (d', reset_smoothing mc)))"

text \<open>The loop over a finite sequence of frames, collecting what each pass emitted.\<close>

fun main_loop ::
  "detector \<times> mouse_controller \<Rightarrow> frame list \<Rightarrow>
     (gesture_result \<times> pointer_action option) list \<times> (detector \<times> mouse_controller)" where
  "main_loop st [] = ([], st)"
| "main_loop st (fr # frs) =
     (case main_step st fr of (out, st') \<Rightarrow>
      case main_loop st' frs of (outs, st'') \<Rightarrow> (out # outs, st''))"

text \<open>The detector alone over a sequence of frames.\<close>

fun run :: "detector \<Rightarrow> frame list \<Rightarrow> gesture_result list \<times> detector" where
  "run s [] = ([], s)"
| "run s ((results, frame_shape, current_time) # frs) =
     (case recognize_gesture s results frame_shape current_time of (r, s') \<Rightarrow>
      case run s' frs of (rs, s'') \<Rightarrow> (r # rs, s''))"

section \<open>Vocabulary of the properties\<close>

text \<open>
  The pinch block does not return on a frame: either the pose is a pinch that is not
  yet active and the click cooldown has not elapsed, or the pose is no pinch and no
  pinch is active.
\<close>
definition pinch_falls_through :: "detector \<Rightarrow> positions \<Rightarrow> real \<Rightarrow> bool" where
  "pinch_falls_through s ps current_time =
     (if detect_pinch ps
      then \<not> is_pinching s \<and> \<not> current_time - last_click_time s > CLICK_COOLDOWN
      else \<not> is_pinching s)"

text \<open>
  An open-hand frame: the four blocks before the open-hand swipe block fall through
  and the condition of the swipe block holds, so that the frame is handled there.
\<close>
definition open_hand_frame :: "detector \<Rightarrow> positions \<Rightarrow> real \<Rightarrow> bool" where
  "open_hand_frame s ps current_time =
     (pinch_falls_through s ps current_time \<and> \<not> detect_fist ps \<and>
      \<not> detect_only_index_up ps \<and> \<not> detect_thumb_index_open ps \<and> detect_open_hand ps)"

text \<open>A frame with a hand whose pose is a pinch.\<close>
definition is_pinch_frame :: "frame \<Rightarrow> bool" where
  "is_pinch_frame fr = (case fr of (Some ps, _, _) \<Rightarrow> detect_pinch ps | (None, _, _) \<Rightarrow> False)"

text \<open>
  What the pinch lifecycle prescribes for a pinch frame at time \<open>t\<close> after a press at
  \<open>t0\<close>: hold up to one second, then drag with the index fingertip position.
\<close>
definition hold_or_drag :: "real \<Rightarrow> frame \<Rightarrow> gesture_result" where
  "hold_or_drag t0 fr =
     (case fr of (results, (frame_height, frame_width), t) \<Rightarrow>
        if t - t0 > 1
        then result pinch_drag
               (map_option (\<lambda>ps. Position (lm_x (index ps) * real frame_width)
                                          (lm_y (index ps) * real frame_height)) results)
        else result left_hold None)"

section \<open>Example hands\<close>

text \<open>
  Concrete hands for evaluating the functions: all landmarks on one horizontal line
  at height \<open>py\<close>, the palm at \<open>x = 0.5\<close>, the thumb tip, the index tip and the
  three other tips at the signed offsets \<open>dt\<close>, \<open>di\<close>, \<open>dr\<close> from the palm.
\<close>
definition pt :: "real \<Rightarrow> real \<Rightarrow> landmark" where
  "pt a b = \<lparr>lm_x = a, lm_y = b, lm_z = 0\<rparr>"

definition example_hand :: "real \<Rightarrow> real \<Rightarrow> real \<Rightarrow> real \<Rightarrow> positions" where
  "example_hand py dt di dr =
     \<lparr>thumb = pt (0.5 + dt) py, index = pt (0.5 + di) py, middle = pt (0.5 + dr) py,
      ring = pt (0.5 + dr) py, pinky = pt (0.5 + dr) py, wrist = pt 0.5 py,
      palm = pt 0.5 py\<rparr>"

text \<open>Thumb on index, all fingers curled: both a pinch and a fist.\<close>
definition pinch_fist_hand :: positions where
  "pinch_fist_hand = example_hand 0.5 0.03 0.05 0.04"

text \<open>All five fingers extended, thumb tip touching the index tip.\<close>
definition open_pinched_hand :: "real \<Rightarrow> positions" where
  "open_pinched_hand py = example_hand py 0.18 0.2 0.2"

text \<open>Half-open hand that meets none of the pose conditions.\<close>
definition idle_hand :: positions where
  "idle_hand = example_hand 0.5 (- 0.11) 0.11 0.11"

text \<open>Index extended, the other fingers curled, thumb away from the index.\<close>
definition index_only_hand :: positions where
  "index_only_hand = example_hand 0.5 (- 0.05) 0.2 0.05"

section \<open>Example frames\<close>

text \<open>
  Frames of a 640 by 480 camera: a press, a release 30 ms later, and then frames
  that arrive inside the click cooldown of that press.
\<close>
definition press_frame :: frame where
  "press_frame = (Some pinch_fist_hand, (480, 640), 1000)"

definition idle_frame :: "real \<Rightarrow> frame" where
  "idle_frame t = (Some idle_hand, (480, 640), t)"

definition open_frame :: "real \<Rightarrow> real \<Rightarrow> frame" where
  "open_frame py t = (Some (open_pinched_hand py), (480, 640), t)"

text \<open>
  The detector after press, release and a first open hand at palm height 0.5: the
  swipe reference is 240.
\<close>
definition swipe_ready :: detector where
  "swipe_ready = snd (run init_detector [press_frame, idle_frame 1000.03, open_frame 0.5 1000.06])"

text \<open>The detector one frame later, after an upward swipe to palm height 0.4.\<close>
definition swipe_scrolled :: detector where
  "swipe_scrolled = snd (run swipe_ready [open_frame 0.4 1000.09])"

text \<open>The detector after the hand was then lost for one frame.\<close>
definition swipe_lost :: detector where
  "swipe_lost = snd (recognize_gesture swipe_ready None (480, 640) 1000.09)"

section \<open>Feeding positions to the pointer mapper\<close>

text \<open>
  Consecutive frames that each call \<^verbatim>\<open>move_mouse\<close> with the next hand position,
  with no reset in between; the targets handed to the backend are collected.
\<close>
fun move_all ::
  "mouse_controller \<Rightarrow> (real \<times> real) list \<Rightarrow> nat \<Rightarrow> nat \<Rightarrow>
     error + (pointer_action list \<times> mouse_controller)" where
  "move_all mc [] frame_width frame_height = Inr ([], mc)"
| "move_all mc ((hand_x, hand_y) # hs) frame_width frame_height =
     (case move_mouse mc hand_x hand_y frame_width frame_height of
        Inl e \<Rightarrow> Inl e
      | Inr (a, mc') \<Rightarrow>
          (case move_all mc' hs frame_width frame_height of
             Inl e \<Rightarrow> Inl e
           | Inr (as, mc'') \<Rightarrow> Inr (a # as, mc'')))"

text \<open>
  The loop state after one frame with only the index finger up at (0.7, 0.5): the
  pointer was moved to (1324, 540) on a 1920 by 1080 screen.
\<close>
definition moved :: "detector \<times> mouse_controller" where
  "moved = snd (main_loop (init_detector, init_mouse 1920 1080)
                  [(Some index_only_hand, (480, 640), 1000)])"

section \<open>Falling through the blocks\<close>

text \<open>
  A block that does not return leaves the detector as it found it, and tells which
  condition failed.
\<close>

lemma or_else_tail:
  "(\<And>s'. blk s = (None, s') \<Longrightarrow> rest1 s' = rest2 s') \<Longrightarrow>
   or_else blk rest1 s = or_else blk rest2 s"
  by (auto simp: or_else_def split: prod.splits option.splits)

lemma or_else_None: "blk s = (None, s') \<Longrightarrow> or_else blk rest s = rest s'"
  by (simp add: or_else_def)

lemma or_else_Some: "blk s = (Some r, s') \<Longrightarrow> or_else blk rest s = (r, s')"
  by (simp add: or_else_def)

lemma pinch_block_falls:
  "pinch_block ps fw fh t s = (None, s') \<Longrightarrow> s' = s \<and> \<not> is_pinching s"
  by (auto simp: pinch_block_def pinch_press_or_hold_def pinch_release_def Let_def
      split: if_splits)

lemma fist_block_falls:
  "fist_block ps t s = (None, s') \<Longrightarrow> s' = s \<and> \<not> detect_fist ps"
  by (auto simp: fist_block_def split: if_splits)

lemma index_block_falls:
  "index_block ps fw fh s = (None, s') \<Longrightarrow> s' = s \<and> \<not> detect_only_index_up ps"
  by (auto simp: index_block_def Let_def split: if_splits)

lemma thumb_index_open_block_falls:
  "thumb_index_open_block ps s = (None, s') \<Longrightarrow> s' = s \<and> \<not> detect_thumb_index_open ps"
  by (auto simp: thumb_index_open_block_def split: if_splits)

lemma open_hand_block_falls:
  "open_hand_block ps fh t s = (None, s') \<Longrightarrow> s' = s \<and> \<not> detect_open_hand ps"
  by (auto simp: open_hand_block_def Let_def
      split: if_splits prod.splits option.splits swipe.splits)

lemma later_blocks_idle:
  assumes "pinch_block ps fw fh t s = (None, s)"
    and "\<not> is_pinching s" "\<not> detect_fist ps" "\<not> detect_only_index_up ps"
    and "\<not> detect_thumb_index_open ps" "\<not> detect_open_hand ps"
  shows "or_else (thumb_index_open_block ps)
           (or_else (pinch_block ps fw fh t)
           (or_else (fist_block ps t)
           (or_else (index_block ps fw fh)
           (or_else (thumb_index_open_block ps)
           (or_else (open_hand_pinch_block ps fw fh t)
           (or_else (fist_block ps t)
           (or_else (index_block ps fw fh)
            idle))))))) s = idle s"
proof -
  have a: "thumb_index_open_block ps s = (None, s)"
    using assms by (simp add: thumb_index_open_block_def)
  have b: "fist_block ps t s = (None, s)"
    using assms by (simp add: fist_block_def)
  have c: "index_block ps fw fh s = (None, s)"
    using assms by (simp add: index_block_def)
  have d: "open_hand_pinch_block ps fw fh t s = (None, s)"
    using assms by (simp add: open_hand_pinch_block_def pinch_release_def)
  show ?thesis by (simp add: or_else_None a b c d assms(1))
qed

lemma recognize_gesture_first_pass:
  "recognize_gesture s (Some ps) (fh, fw) current_time =
     or_else (pinch_block ps fw fh current_time)
    (or_else (fist_block ps current_time)
    (or_else (index_block ps fw fh)
    (or_else (thumb_index_open_block ps)
    (or_else (open_hand_block ps fh current_time)
     idle)))) s"
  unfolding recognize_gesture_def option.case prod.case
proof (intro or_else_tail)
  fix s1 s2 s3 s4 s5
  assume 1: "pinch_block ps fw fh current_time s = (None, s1)"
    and 2: "fist_block ps current_time s1 = (None, s2)"
    and 3: "index_block ps fw fh s2 = (None, s3)"
    and 4: "thumb_index_open_block ps s3 = (None, s4)"
    and 5: "open_hand_block ps fh current_time s4 = (None, s5)"
  from 1 have e1: "s1 = s" "\<not> is_pinching s"
    using pinch_block_falls by blast+
  from 2 have e2: "s2 = s1" "\<not> detect_fist ps"
    using fist_block_falls by blast+
  from 3 have e3: "s3 = s2" "\<not> detect_only_index_up ps"
    using index_block_falls by blast+
  from 4 have e4: "s4 = s3" "\<not> detect_thumb_index_open ps"
    using thumb_index_open_block_falls by blast+
  from 5 have e5: "s5 = s4" "\<not> detect_open_hand ps"
    using open_hand_block_falls by blast+
  have all: "s5 = s" using e1 e2 e3 e4 e5 by simp
  show "or_else (thumb_index_open_block ps)
         (or_else (pinch_block ps fw fh current_time)
         (or_else (fist_block ps current_time)
         (or_else (index_block ps fw fh)
         (or_else (thumb_index_open_block ps)
         (or_else (open_hand_pinch_block ps fw fh current_time)
         (or_else (fist_block ps current_time)
         (or_else (index_block ps fw fh)
          idle))))))) s5 = idle s5"
    unfolding all
    by (rule later_blocks_idle) (use 1 e1 e2 e3 e4 e5 in simp_all)
qed

section \<open>The duplicated blocks are dead code\<close>

text \<open>
  Claim C8. For every detection result, frame shape, detector state and timestamp,
  \<open>recognize_gesture\<close> returns the same result and the same updated detector as the
  single ordered chain pinch, fist, index-only, thumb-index-open, open-hand swipe,
  idle. So whenever control reaches the duplicated blocks after the first pass
  (including the press logic under the second open-hand test), none of them returns
  or changes the detector: together they behave as the final idle statement.
\<close>

theorem recognize_gesture_is_decision_chain:
  "recognize_gesture s results frame_shape current_time =
   decision_chain s results frame_shape current_time"
proof (cases results)
  case None
  then show ?thesis
    by (simp add: recognize_gesture_def decision_chain_def)
next
  case (Some ps)
  obtain frame_height frame_width where "frame_shape = (frame_height, frame_width)"
    by (cases frame_shape)
  with Some show ?thesis
    by (simp add: recognize_gesture_first_pass decision_chain_def)
qed

section \<open>One frame at a time\<close>

lemma pinch_block_None_iff:
  "pinch_block ps fw fh t s = (None, s) \<longleftrightarrow> pinch_falls_through s ps t"
  by (auto simp: pinch_block_def pinch_press_or_hold_def pinch_release_def Let_def pinch_falls_through_def)

lemma recognize_no_hand:
  "recognize_gesture s None fs t =
     (result g_none None,
      s\<lparr>current_gesture := ''None'', prev_open_hand_y := None, is_pinching := False\<rparr>)"
  by (simp add: recognize_gesture_def)

lemma recognize_press:
  assumes "detect_pinch ps" "\<not> is_pinching s" "t - last_click_time s > CLICK_COOLDOWN"
  shows "recognize_gesture s (Some ps) (fh, fw) t =
     (result left_press None,
      s\<lparr>is_pinching := True, pinch_start_time := t, last_click_time := t,
        current_gesture := ''Pinch Start (Left Press)''\<rparr>)"
  using assms
  by (simp add: recognize_gesture_def or_else_def pinch_block_def pinch_press_or_hold_def)

lemma recognize_hold:
  assumes "detect_pinch ps" "is_pinching s" "\<not> t - pinch_start_time s > 1"
  shows "recognize_gesture s (Some ps) (fh, fw) t =
     (result left_hold None, s\<lparr>current_gesture := ''Pinch Hold (Holding)''\<rparr>)"
  using assms
  by (simp add: recognize_gesture_def or_else_def pinch_block_def pinch_press_or_hold_def)

lemma recognize_drag:
  assumes "detect_pinch ps" "is_pinching s" "t - pinch_start_time s > 1"
  shows "recognize_gesture s (Some ps) (fh, fw) t =
     (result pinch_drag (Some (Position (lm_x (index ps) * real fw) (lm_y (index ps) * real fh))),
      s\<lparr>current_gesture := ''Pinch Hold + Move (Dragging)''\<rparr>)"
  using assms
  by (simp add: recognize_gesture_def or_else_def pinch_block_def pinch_press_or_hold_def
      get_index_position_def)

lemma recognize_release:
  assumes "\<not> detect_pinch ps" "is_pinching s"
  shows "recognize_gesture s (Some ps) (fh, fw) t =
     (result left_release None, s\<lparr>is_pinching := False, current_gesture := ''Pinch Release''\<rparr>)"
  using assms
  by (simp add: recognize_gesture_def or_else_def pinch_block_def pinch_release_def)

lemma recognize_after_pinch:
  assumes "pinch_falls_through s ps t"
  shows "recognize_gesture s (Some ps) (fh, fw) t =
           (or_else (fist_block ps t)
           (or_else (index_block ps fw fh)
           (or_else (thumb_index_open_block ps)
           (or_else (open_hand_block ps fh t)
            idle))) s)"
proof -
  have "pinch_block ps fw fh t s = (None, s)" using assms by (simp add: pinch_block_None_iff)
  then show ?thesis
    by (simp add: recognize_gesture_first_pass or_else_None)
qed

lemma recognize_right_click:
  assumes "pinch_falls_through s ps t" "detect_fist ps" "t - last_right_click_time s > CLICK_COOLDOWN"
  shows "recognize_gesture s (Some ps) (fh, fw) t =
     (result right_click None,
      s\<lparr>current_gesture := ''Fist (Right Click)'', last_right_click_time := t\<rparr>)"
  using assms by (simp add: recognize_after_pinch or_else_def fist_block_def)

lemma recognize_idle:
  assumes "pinch_falls_through s ps t" "\<not> detect_fist ps" "\<not> detect_only_index_up ps"
    "\<not> detect_thumb_index_open ps" "\<not> detect_open_hand ps"
  shows "recognize_gesture s (Some ps) (fh, fw) t = (result g_none None, s\<lparr>current_gesture := ''Idle''\<rparr>)"
  using assms by (simp add: recognize_after_pinch or_else_def fist_block_def index_block_def
      thumb_index_open_block_def open_hand_block_def idle_def)

lemma recognize_move:
  assumes "pinch_falls_through s ps t" "\<not> detect_fist ps" "detect_only_index_up ps"
  shows "recognize_gesture s (Some ps) (fh, fw) t =
     (result move (Some (Position (lm_x (index ps) * real fw) (lm_y (index ps) * real fh))),
      s\<lparr>current_gesture := ''Move (Index Only)''\<rparr>)"
  using assms by (simp add: recognize_after_pinch or_else_def fist_block_def index_block_def
      get_index_position_def)

lemma recognize_open_hand:
  assumes "open_hand_frame s ps t"
  shows "recognize_gesture s (Some ps) (fh, fw) t =
     (case open_hand_block ps fh t s of (r, s') \<Rightarrow> (the r, s'))"
  using assms unfolding open_hand_frame_def
  by (auto simp add: recognize_after_pinch or_else_def fist_block_def index_block_def
      thumb_index_open_block_def open_hand_block_def Let_def split: prod.splits option.splits swipe.splits)

text \<open>
  The open-hand frames are exactly the frames on which the first four blocks fall
  through and the swipe block's condition holds. On such a frame the thumb tip is
  within the pinch threshold of the index tip: an open hand with the thumb further
  away is taken by the thumb-and-index-open block before.
\<close>

lemma open_hand_frame_blocks:
  "open_hand_frame s ps t \<longleftrightarrow>
     pinch_block ps fw fh t s = (None, s) \<and> fist_block ps t s = (None, s) \<and>
     index_block ps fw fh s = (None, s) \<and> thumb_index_open_block ps s = (None, s) \<and>
     detect_open_hand ps"
  by (auto simp: open_hand_frame_def pinch_block_None_iff fist_block_def index_block_def
      thumb_index_open_block_def Let_def split: if_splits)

lemma open_hand_frame_thumb_near_index:
  assumes "open_hand_frame s ps t"
  shows "calculate_distance (thumb ps) (index ps) \<le> PINCH_THRESHOLD"
  using assms
  by (auto simp: open_hand_frame_def detect_open_hand_def detect_thumb_index_open_def Let_def)

section \<open>Pinch lifecycle\<close>

lemma held_run:
  assumes "is_pinching s" "pinch_start_time s = t0" "\<forall>fr \<in> set held. is_pinch_frame fr"
    "\<not> detect_pinch pr"
  shows "fst (run s (held @ [(Some pr, fsr, tr)])) = map (hold_or_drag t0) held @ [result left_release None]
       \<and> \<not> is_pinching (snd (run s (held @ [(Some pr, fsr, tr)])))"
  using assms
proof (induction held arbitrary: s)
  case Nil
  obtain fh fw where "fsr = (fh, fw)" by (cases fsr)
  with Nil show ?case by (simp add: recognize_release)
next
  case (Cons fr held)
  obtain res fh fw t where fr: "fr = (res, (fh, fw), t)" by (cases fr) auto
  from Cons.prems(3) obtain ps where ps: "res = Some ps" "detect_pinch ps"
    by (auto simp: fr is_pinch_frame_def split: option.splits)
  define s' where "s' = snd (recognize_gesture s (Some ps) (fh, fw) t)"
  have step: "recognize_gesture s (Some ps) (fh, fw) t = (hold_or_drag t0 fr, s')"
    and inv: "is_pinching s'" "pinch_start_time s' = t0"
    using Cons.prems(1,2) ps unfolding s'_def
    by (cases "t - t0 > 1"; simp add: recognize_hold recognize_drag hold_or_drag_def fr)+
  have IH: "fst (run s' (held @ [(Some pr, fsr, tr)])) = map (hold_or_drag t0) held @ [result left_release None]
       \<and> \<not> is_pinching (snd (run s' (held @ [(Some pr, fsr, tr)])))"
    using Cons.IH[OF inv] Cons.prems(3,4) by simp
  show ?case using IH step by (cases "run s' (held @ [(Some pr, fsr, tr)])") (simp add: fr ps)
qed

text \<open>
  Claim C1. From a state with no active pinch and the click cooldown elapsed at
  \<open>t0\<close>, a run of pinch frames followed by a frame with a hand that is not pinching
  emits: left press on the first frame (which sets \<open>is_pinching\<close> and
  \<open>pinch_start_time = t0\<close>), on each later pinch frame at time \<open>t\<close> left hold when
  \<open>t - t0 \<le> 1\<close> and drag with the current index fingertip position when
  \<open>t - t0 > 1\<close>, and left release on the first frame that is not a pinch, which
  clears \<open>is_pinching\<close>; the release is the same after holds and after drags.
\<close>

theorem pinch_lifecycle:
  assumes "\<not> is_pinching s" and "t0 - last_click_time s > CLICK_COOLDOWN"
    and "detect_pinch p0" and "\<forall>fr \<in> set held. is_pinch_frame fr" and "\<not> detect_pinch pr"
  shows "fst (run s ((Some p0, fs0, t0) # held @ [(Some pr, fsr, tr)])) =
           result left_press None # map (hold_or_drag t0) held @ [result left_release None]
       \<and> is_pinching (snd (recognize_gesture s (Some p0) fs0 t0))
       \<and> pinch_start_time (snd (recognize_gesture s (Some p0) fs0 t0)) = t0
       \<and> \<not> is_pinching (snd (run s ((Some p0, fs0, t0) # held @ [(Some pr, fsr, tr)])))"
proof -
  obtain fh fw where fs0: "fs0 = (fh, fw)" by (cases fs0)
  define s1 where "s1 = s\<lparr>is_pinching := True, pinch_start_time := t0, last_click_time := t0,
        current_gesture := ''Pinch Start (Left Press)''\<rparr>"
  have step: "recognize_gesture s (Some p0) fs0 t0 = (result left_press None, s1)"
    unfolding fs0 s1_def by (rule recognize_press[OF assms(3,1,2)])
  have inv: "is_pinching s1" "pinch_start_time s1 = t0" by (simp_all add: s1_def)
  from held_run[OF inv assms(4,5), of fsr tr] step inv
  show ?thesis by (cases "run s1 (held @ [(Some pr, fsr, tr)])") simp
qed

section \<open>Evaluating the detectors on the example hands\<close>

lemma distance_pt: "calculate_distance (pt a c) (pt b c) = \<bar>a - b\<bar>"
  by (simp add: calculate_distance_def pt_def)

lemma detect_pinch_example:
  "detect_pinch (example_hand py dt di dr) \<longleftrightarrow> \<bar>dt - di\<bar> < 0.05"
  by (simp add: detect_pinch_def example_hand_def distance_pt PINCH_THRESHOLD_def)

lemma detect_fist_example:
  "detect_fist (example_hand py dt di dr) \<longleftrightarrow>
     (\<bar>dt\<bar> + \<bar>di\<bar> + 3 * \<bar>dr\<bar>) / 5 < 0.08 \<and> max \<bar>dt\<bar> (max \<bar>di\<bar> \<bar>dr\<bar>) < 0.16 \<and>
     \<bar>dt\<bar> < 0.1 \<and> \<bar>di\<bar> < 0.1"
  by (simp add: detect_fist_def example_hand_def distance_pt FIST_THRESHOLD_def Let_def
      add.assoc)

lemma detect_only_index_up_example:
  "detect_only_index_up (example_hand py dt di dr) \<longleftrightarrow> \<bar>di\<bar> > 0.14 \<and> \<bar>dr\<bar> < 0.12"
  by (auto simp add: detect_only_index_up_def example_hand_def distance_pt)

lemma detect_thumb_index_open_example:
  "detect_thumb_index_open (example_hand py dt di dr) \<longleftrightarrow>
     \<bar>dt\<bar> > 0.12 \<and> \<bar>di\<bar> > 0.15 \<and> \<bar>dt - di\<bar> > 0.05"
  by (simp add: detect_thumb_index_open_def example_hand_def distance_pt PINCH_THRESHOLD_def)

lemma detect_open_hand_example:
  "detect_open_hand (example_hand py dt di dr) \<longleftrightarrow>
     \<bar>dt\<bar> > 0.13 \<and> \<bar>di\<bar> > 0.15 \<and> \<bar>dr\<bar> > 0.14"
  by (auto simp add: detect_open_hand_def example_hand_def distance_pt)

lemmas detect_example =
  detect_pinch_example detect_fist_example detect_only_index_up_example
  detect_thumb_index_open_example detect_open_hand_example

lemma pinch_fist_hand_poses:
  "detect_pinch pinch_fist_hand" "detect_fist pinch_fist_hand"
  by (simp_all add: pinch_fist_hand_def detect_example)

lemma idle_hand_poses:
  "\<not> detect_pinch idle_hand" "\<not> detect_fist idle_hand" "\<not> detect_only_index_up idle_hand"
  "\<not> detect_thumb_index_open idle_hand" "\<not> detect_open_hand idle_hand"
  by (simp_all add: idle_hand_def detect_example)

lemma index_only_hand_poses:
  "\<not> detect_pinch index_only_hand" "\<not> detect_fist index_only_hand"
  "detect_only_index_up index_only_hand"
  by (simp_all add: index_only_hand_def detect_example)

lemma open_pinched_hand_poses:
  "detect_pinch (open_pinched_hand py)" "\<not> detect_fist (open_pinched_hand py)"
  "\<not> detect_only_index_up (open_pinched_hand py)"
  "\<not> detect_thumb_index_open (open_pinched_hand py)" "detect_open_hand (open_pinched_hand py)"
  by (simp_all add: open_pinched_hand_def detect_example)

lemma example_hand_sel:
  "lm_y (palm (example_hand py dt di dr)) = py"
  "lm_x (index (example_hand py dt di dr)) = 0.5 + di"
  "lm_y (index (example_hand py dt di dr)) = py"
  by (simp_all add: example_hand_def pt_def)

theorem pinch_lifecycle_witness:
  "\<not> is_pinching init_detector \<and> 1000 - last_click_time init_detector > CLICK_COOLDOWN \<and>
   detect_pinch pinch_fist_hand \<and>
   is_pinch_frame (Some pinch_fist_hand, (480, 640), 1000.5) \<and>
   is_pinch_frame (Some (open_pinched_hand 0.5), (480, 640), 1001.5) \<and>
   \<not> detect_pinch idle_hand \<and>
   fst (run init_detector
     [(Some pinch_fist_hand, (480, 640), 1000),
      (Some pinch_fist_hand, (480, 640), 1000.5),
      (Some (open_pinched_hand 0.5), (480, 640), 1001.5),
      (Some idle_hand, (480, 640), 1001.6)]) =
     [result left_press None, result left_hold None,
      result pinch_drag (Some (Position 448 240)), result left_release None] \<and>
   \<not> is_pinching (snd (run init_detector
     [(Some pinch_fist_hand, (480, 640), 1000),
      (Some pinch_fist_hand, (480, 640), 1000.5),
      (Some (open_pinched_hand 0.5), (480, 640), 1001.5),
      (Some idle_hand, (480, 640), 1001.6)]))"
proof -
  have h1: "\<not> is_pinching init_detector" by (simp add: init_detector_def)
  have h2: "1000 - last_click_time init_detector > CLICK_COOLDOWN"
    by (simp add: init_detector_def CLICK_COOLDOWN_def)
  have h3: "detect_pinch pinch_fist_hand" by (rule pinch_fist_hand_poses)
  have h4: "\<forall>fr \<in> set [(Some pinch_fist_hand, (480, 640), 1000.5),
                 (Some (open_pinched_hand 0.5), (480::nat, 640::nat), 1001.5::real)]. is_pinch_frame fr"
    by (simp add: is_pinch_frame_def pinch_fist_hand_poses open_pinched_hand_poses)
  have h5: "\<not> detect_pinch idle_hand" by (rule idle_hand_poses)
  show ?thesis
    using pinch_lifecycle[OF h1 h2 h3 h4 h5, of "(480, 640)" "(480, 640)" "1001.6"] h1 h2 h3 h4 h5
    by (simp add: hold_or_drag_def open_pinched_hand_def example_hand_sel)
qed

section \<open>Pinch priority\<close>

text \<open>
  Claim C2, as amended. For every landmark configuration whose thumb--index distance
  is below the pinch threshold, whatever the other fingers do (so also when the fist
  condition holds as well): if a pinch is already active or the click cooldown has
  elapsed, the frame is handled by the pinch block. The result is left press when no
  pinch was active, and left hold or drag otherwise; it is never a right click.
\<close>

theorem pinch_priority:
  assumes "detect_pinch ps"
    and "is_pinching s \<or> current_time - last_click_time s > CLICK_COOLDOWN"
  shows "fst (recognize_gesture s (Some ps) (fh, fw) current_time) =
           (if is_pinching s then hold_or_drag (pinch_start_time s) (Some ps, (fh, fw), current_time)
            else result left_press None)
       \<and> gtype (fst (recognize_gesture s (Some ps) (fh, fw) current_time))
            \<in> {left_press, left_hold, pinch_drag}"
proof (cases "is_pinching s")
  case True
  then show ?thesis using assms(1)
    by (cases "current_time - pinch_start_time s > 1")
       (simp_all add: recognize_hold recognize_drag hold_or_drag_def result_def)
next
  case False
  then show ?thesis using assms
    by (simp add: recognize_press result_def)
qed

theorem pinch_priority_witness:
  "detect_pinch pinch_fist_hand \<and> detect_fist pinch_fist_hand \<and>
   1000 - last_click_time init_detector > CLICK_COOLDOWN \<and>
   fst (recognize_gesture init_detector (Some pinch_fist_hand) (480, 640) 1000) =
     result left_press None"
proof -
  have h1: "detect_pinch pinch_fist_hand" by (rule pinch_fist_hand_poses)
  have h2: "is_pinching init_detector \<or> 1000 - last_click_time init_detector > CLICK_COOLDOWN"
    by (simp add: init_detector_def CLICK_COOLDOWN_def)
  show ?thesis
    using pinch_priority[OF h1 h2, of 480 640] pinch_fist_hand_poses
    by (simp add: init_detector_def CLICK_COOLDOWN_def)
qed

text \<open>
  The claim as written fails inside the click cooldown: a press, a release 30 ms later
  and, 30 ms after that, a hand that is both a pinch and a fist give a right click.
\<close>

theorem pinch_priority_counterexample:
  "detect_pinch pinch_fist_hand \<and> detect_fist pinch_fist_hand \<and>
   fst (run init_detector
     [(Some pinch_fist_hand, (480, 640), 1000),
      (Some idle_hand, (480, 640), 1000.03),
      (Some pinch_fist_hand, (480, 640), 1000.06)]) =
     [result left_press None, result left_release None, result right_click None]"
  by (simp add: pinch_fist_hand_poses idle_hand_poses recognize_press recognize_release
      recognize_right_click pinch_falls_through_def init_detector_def CLICK_COOLDOWN_def)

section \<open>Losing the hand during a pinch\<close>

text \<open>
  Claim C3 at its failing input. A pinch frame followed by a frame without a hand:
  the first emits left press and sets \<open>is_pinching\<close>; the second clears
  \<open>is_pinching\<close> and emits no command, so no left release matches the press and
  the loop never asks the backend to let the button go.
\<close>

theorem hand_loss_clears_pinch_without_release:
  "fst (run init_detector
     [(Some pinch_fist_hand, (480, 640), 1000), (None, (480, 640), 1000.03)]) =
     [result left_press None, result g_none None] \<and>
   is_pinching (snd (run init_detector [(Some pinch_fist_hand, (480, 640), 1000)])) \<and>
   \<not> is_pinching (snd (run init_detector
     [(Some pinch_fist_hand, (480, 640), 1000), (None, (480, 640), 1000.03)])) \<and>
   map snd (fst (main_loop (init_detector, init_mouse 1920 1080)
     [(Some pinch_fist_hand, (480, 640), 1000), (None, (480, 640), 1000.03)])) =
     [Some MouseDown, None]"
  by (simp add: pinch_fist_hand_poses recognize_press recognize_no_hand
      init_detector_def CLICK_COOLDOWN_def main_step_def execute_gesture_def result_def)

section \<open>The open-hand swipe\<close>

lemma run_append:
  "run s (xs @ ys) =
     (case run s xs of (rs, s') \<Rightarrow> case run s' ys of (rs', s'') \<Rightarrow> (rs @ rs', s''))"
  by (induction xs arbitrary: s) (auto split: prod.splits)

lemma recognize_swipe_first:
  assumes "open_hand_frame s ps t" "prev_open_hand_y s = None"
  shows "recognize_gesture s (Some ps) (fh, fw) t =
     (result g_none None,
      s\<lparr>prev_open_hand_y := Some (lm_y (palm ps) * real fh),
        current_gesture := ''Open Hand Ready''\<rparr>)"
  using assms
  by (simp add: recognize_open_hand open_hand_block_def detect_open_hand_swipe_def
      open_hand_frame_def)

lemma recognize_swipe_still:
  assumes "open_hand_frame s ps t" "prev_open_hand_y s = Some ref"
    "\<not> ref - lm_y (palm ps) * real fh > real fh * SWIPE_THRESHOLD"
    "\<not> ref - lm_y (palm ps) * real fh < - (real fh * SWIPE_THRESHOLD)"
  shows "recognize_gesture s (Some ps) (fh, fw) t =
     (result g_none None, s\<lparr>current_gesture := ''Open Hand Ready''\<rparr>)"
  using assms
  by (simp add: recognize_open_hand open_hand_block_def detect_open_hand_swipe_def
      open_hand_frame_def Let_def)

lemma recognize_swipe_blocked:
  assumes "open_hand_frame s ps t" "prev_open_hand_y s = Some ref"
    "ref - lm_y (palm ps) * real fh > real fh * SWIPE_THRESHOLD \<or>
     ref - lm_y (palm ps) * real fh < - (real fh * SWIPE_THRESHOLD)"
    "\<not> t - last_scroll_time s > SCROLL_COOLDOWN"
  shows "recognize_gesture s (Some ps) (fh, fw) t =
     (result g_none None,
      s\<lparr>prev_open_hand_y := Some (lm_y (palm ps) * real fh),
        current_gesture := ''Open Hand Ready''\<rparr>)"
  using assms
  by (auto simp add: recognize_open_hand open_hand_block_def detect_open_hand_swipe_def
      open_hand_frame_def Let_def)

lemma recognize_swipe_down:
  assumes "open_hand_frame s ps t" "prev_open_hand_y s = Some ref"
    "ref - lm_y (palm ps) * real fh > real fh * SWIPE_THRESHOLD"
    "t - last_scroll_time s > SCROLL_COOLDOWN"
  shows "recognize_gesture s (Some ps) (fh, fw) t =
     (result scroll (Some (Direction down)),
      s\<lparr>prev_open_hand_y := Some (lm_y (palm ps) * real fh), last_scroll_time := t,
        current_gesture := ''Open Hand Swipe Up (Scroll DOWN)''\<rparr>)"
  using assms
  by (simp add: recognize_open_hand open_hand_block_def detect_open_hand_swipe_def
      open_hand_frame_def Let_def)

lemma recognize_swipe_up:
  assumes "open_hand_frame s ps t" "prev_open_hand_y s = Some ref"
    "\<not> ref - lm_y (palm ps) * real fh > real fh * SWIPE_THRESHOLD"
    "ref - lm_y (palm ps) * real fh < - (real fh * SWIPE_THRESHOLD)"
    "t - last_scroll_time s > SCROLL_COOLDOWN"
  shows "recognize_gesture s (Some ps) (fh, fw) t =
     (result scroll (Some (Direction up)),
      s\<lparr>prev_open_hand_y := Some (lm_y (palm ps) * real fh), last_scroll_time := t,
        current_gesture := ''Open Hand Swipe Down (Scroll UP)''\<rparr>)"
  using assms
  by (simp add: recognize_open_hand open_hand_block_def detect_open_hand_swipe_def
      open_hand_frame_def Let_def)

lemma open_hand_frame_example:
  "open_hand_frame s (open_pinched_hand py) t \<longleftrightarrow>
     \<not> is_pinching s \<and> \<not> t - last_click_time s > CLICK_COOLDOWN"
  by (simp add: open_hand_frame_def pinch_falls_through_def open_pinched_hand_poses)

lemma palm_open_pinched_hand: "lm_y (palm (open_pinched_hand py)) = py"
  by (simp add: open_pinched_hand_def example_hand_sel)

lemma swipe_ready_eval:
  "swipe_ready =
     \<lparr>prev_open_hand_y = Some 240, prev_index_pos = None, last_click_time = 1000,
      last_right_click_time = 0, last_scroll_time = 0, is_pinching = False,
      pinch_start_time = 1000, current_gesture = ''Open Hand Ready''\<rparr>"
  by (simp add: swipe_ready_def press_frame_def idle_frame_def open_frame_def
      pinch_fist_hand_poses idle_hand_poses recognize_press recognize_release
      recognize_swipe_first open_hand_frame_example palm_open_pinched_hand
      init_detector_def CLICK_COOLDOWN_def)

lemma swipe_ready_outputs:
  "fst (run init_detector [press_frame, idle_frame 1000.03, open_frame 0.5 1000.06]) =
     [result left_press None, result left_release None, result g_none None]"
  by (simp add: press_frame_def idle_frame_def open_frame_def
      pinch_fist_hand_poses idle_hand_poses recognize_press recognize_release
      recognize_swipe_first open_hand_frame_example palm_open_pinched_hand
      init_detector_def CLICK_COOLDOWN_def)

lemma swipe_scrolled_eval:
  "swipe_scrolled =
     \<lparr>prev_open_hand_y = Some 192, prev_index_pos = None, last_click_time = 1000,
      last_right_click_time = 0, last_scroll_time = 1000.09, is_pinching = False,
      pinch_start_time = 1000, current_gesture = ''Open Hand Swipe Up (Scroll DOWN)''\<rparr>"
  by (simp add: swipe_scrolled_def swipe_ready_eval open_frame_def
      recognize_swipe_down[where ref = 240] open_hand_frame_example palm_open_pinched_hand
      CLICK_COOLDOWN_def SCROLL_COOLDOWN_def SWIPE_THRESHOLD_def)

section \<open>Scroll direction\<close>

text \<open>
  Claim C4, as amended. On every open-hand frame with the swipe reference defined and
  the scroll cooldown elapsed, with \<open>y_diff\<close> the reference minus the current palm Y
  (in pixels) and \<open>threshold\<close> the frame height times the swipe threshold: when
  \<open>y_diff > threshold\<close> (the hand moved up in the image) the result is scroll down,
  and when \<open>y_diff < - threshold\<close> (the hand moved down) the result is scroll up.
\<close>

theorem scroll_direction:
  assumes "open_hand_frame s ps current_time"
    and "prev_open_hand_y s = Some ref"
    and "current_time - last_scroll_time s > SCROLL_COOLDOWN"
    and "y_diff = ref - lm_y (palm ps) * real fh"
    and "threshold = real fh * SWIPE_THRESHOLD"
  shows "(y_diff > threshold \<longrightarrow>
            fst (recognize_gesture s (Some ps) (fh, fw) current_time) =
              result scroll (Some (Direction down)))
       \<and> (y_diff < - threshold \<longrightarrow>
            fst (recognize_gesture s (Some ps) (fh, fw) current_time) =
              result scroll (Some (Direction up)))"
proof (intro conjI impI)
  assume "y_diff > threshold"
  then show "fst (recognize_gesture s (Some ps) (fh, fw) current_time) =
      result scroll (Some (Direction down))"
    using assms by (simp add: recognize_swipe_down)
next
  assume lt: "y_diff < - threshold"
  have "0 \<le> threshold" using assms(5) by (simp add: SWIPE_THRESHOLD_def)
  with lt have "\<not> y_diff > threshold" by simp
  with lt show "fst (recognize_gesture s (Some ps) (fh, fw) current_time) =
      result scroll (Some (Direction up))"
    using assms by (simp add: recognize_swipe_up)
qed

theorem scroll_direction_witness:
  "open_hand_frame swipe_ready (open_pinched_hand 0.4) 1000.09 \<and>
   open_hand_frame swipe_ready (open_pinched_hand 0.6) 1000.09 \<and>
   prev_open_hand_y swipe_ready = Some 240 \<and>
   1000.09 - last_scroll_time swipe_ready > SCROLL_COOLDOWN \<and>
   fst (recognize_gesture swipe_ready (Some (open_pinched_hand 0.4)) (480, 640) 1000.09) =
     result scroll (Some (Direction down)) \<and>
   fst (recognize_gesture swipe_ready (Some (open_pinched_hand 0.6)) (480, 640) 1000.09) =
     result scroll (Some (Direction up))"
proof -
  have h1: "open_hand_frame swipe_ready (open_pinched_hand 0.4) 1000.09"
    and h1': "open_hand_frame swipe_ready (open_pinched_hand 0.6) 1000.09"
    by (simp_all add: open_hand_frame_example swipe_ready_eval CLICK_COOLDOWN_def)
  have h2: "prev_open_hand_y swipe_ready = Some 240" by (simp add: swipe_ready_eval)
  have h3: "1000.09 - last_scroll_time swipe_ready > SCROLL_COOLDOWN"
    by (simp add: swipe_ready_eval SCROLL_COOLDOWN_def)
  show ?thesis
    using scroll_direction[OF h1 h2 h3 refl refl, of 480 640]
      scroll_direction[OF h1' h2 h3 refl refl, of 480 640] h1 h1' h2 h3
    by (simp add: palm_open_pinched_hand SWIPE_THRESHOLD_def)
qed

text \<open>
  The claim as written fails: with reference 240 and palm at 192 the displacement is
  \<open>48 > 0\<close>, above the threshold 19.2, the cooldown has elapsed, and the result is
  scroll down, not scroll up.
\<close>

theorem scroll_direction_counterexample:
  "open_hand_frame swipe_ready (open_pinched_hand 0.4) 1000.09 \<and>
   prev_open_hand_y swipe_ready = Some 240 \<and>
   240 - lm_y (palm (open_pinched_hand 0.4)) * real 480 = 48 \<and>
   real 480 * SWIPE_THRESHOLD < 48 \<and>
   1000.09 - last_scroll_time swipe_ready > SCROLL_COOLDOWN \<and>
   fst (recognize_gesture swipe_ready (Some (open_pinched_hand 0.4)) (480, 640) 1000.09) =
     result scroll (Some (Direction down)) \<and>
   fst (recognize_gesture swipe_ready (Some (open_pinched_hand 0.4)) (480, 640) 1000.09) \<noteq>
     result scroll (Some (Direction up))"
  by (simp add: recognize_swipe_down[where ref = 240] open_hand_frame_example
      swipe_ready_eval palm_open_pinched_hand CLICK_COOLDOWN_def SCROLL_COOLDOWN_def
      SWIPE_THRESHOLD_def result_def)

section \<open>When the swipe reference changes\<close>

text \<open>
  Claim C5, as amended. On every open-hand frame with the swipe reference defined:
  if the displacement does not exceed the threshold in either direction, no scroll
  is emitted and the reference is left unchanged; if it does, the reference becomes
  the current palm Y whether or not a scroll is emitted, and a scroll is emitted
  exactly when the scroll cooldown has elapsed.
\<close>

theorem swipe_reference_update:
  assumes "open_hand_frame s ps current_time"
    and "prev_open_hand_y s = Some ref"
    and "y_diff = ref - lm_y (palm ps) * real fh"
    and "threshold = real fh * SWIPE_THRESHOLD"
    and "recognize_gesture s (Some ps) (fh, fw) current_time = (r, s')"
  shows "(\<not> y_diff > threshold \<and> \<not> y_diff < - threshold \<longrightarrow>
            gtype r = g_none \<and> prev_open_hand_y s' = Some ref)
       \<and> (y_diff > threshold \<or> y_diff < - threshold \<longrightarrow>
            prev_open_hand_y s' = Some (lm_y (palm ps) * real fh) \<and>
            (gtype r = scroll \<longleftrightarrow> current_time - last_scroll_time s > SCROLL_COOLDOWN))"
proof -
  have still: "gtype r = g_none \<and> prev_open_hand_y s' = Some ref"
    if "\<not> y_diff > threshold \<and> \<not> y_diff < - threshold"
    using that assms by (auto simp add: recognize_swipe_still result_def)
  have moved: "prev_open_hand_y s' = Some (lm_y (palm ps) * real fh) \<and>
        (gtype r = scroll \<longleftrightarrow> current_time - last_scroll_time s > SCROLL_COOLDOWN)"
    if ex: "y_diff > threshold \<or> y_diff < - threshold"
  proof (cases "current_time - last_scroll_time s > SCROLL_COOLDOWN")
    case False
    with ex show ?thesis
      using assms by (auto simp add: recognize_swipe_blocked result_def)
  next
    case True
    show ?thesis
    proof (cases "y_diff > threshold")
      case True
      with \<open>current_time - last_scroll_time s > SCROLL_COOLDOWN\<close> show ?thesis
        using assms by (auto simp add: recognize_swipe_down result_def)
    next
      case False
      with ex True show ?thesis
        using assms by (auto simp add: recognize_swipe_up result_def)
    qed
  qed
  show ?thesis using still moved by blast
qed

theorem swipe_reference_update_witness:
  "open_hand_frame swipe_ready (open_pinched_hand 0.5) 1000.09 \<and>
   prev_open_hand_y swipe_ready = Some 240 \<and>
   gtype (fst (recognize_gesture swipe_ready (Some (open_pinched_hand 0.5)) (480, 640) 1000.09))
     = g_none \<and>
   prev_open_hand_y
     (snd (recognize_gesture swipe_ready (Some (open_pinched_hand 0.5)) (480, 640) 1000.09))
     = Some 240 \<and>
   open_hand_frame swipe_ready (open_pinched_hand 0.4) 1000.09 \<and>
   1000.09 - last_scroll_time swipe_ready > SCROLL_COOLDOWN \<and>
   gtype (fst (recognize_gesture swipe_ready (Some (open_pinched_hand 0.4)) (480, 640) 1000.09))
     = scroll \<and>
   prev_open_hand_y
     (snd (recognize_gesture swipe_ready (Some (open_pinched_hand 0.4)) (480, 640) 1000.09))
     = Some 192"
proof -
  have h1: "open_hand_frame swipe_ready (open_pinched_hand 0.5) 1000.09"
    and h1': "open_hand_frame swipe_ready (open_pinched_hand 0.4) 1000.09"
    by (simp_all add: open_hand_frame_example swipe_ready_eval CLICK_COOLDOWN_def)
  have h2: "prev_open_hand_y swipe_ready = Some 240" by (simp add: swipe_ready_eval)
  have h3: "1000.09 - last_scroll_time swipe_ready > SCROLL_COOLDOWN"
    by (simp add: swipe_ready_eval SCROLL_COOLDOWN_def)
  show ?thesis
    using swipe_reference_update[OF h1 h2 refl refl surjective_pairing]
      swipe_reference_update[OF h1' h2 refl refl surjective_pairing] h1 h1' h2 h3
    by (simp add: palm_open_pinched_hand SWIPE_THRESHOLD_def)
qed

text \<open>
  The claim as written fails inside the scroll cooldown: 30 ms after a scroll, with
  reference 192 and the palm at 144, no scroll is emitted and yet the reference
  moves to 144.
\<close>

theorem swipe_reference_update_counterexample:
  "open_hand_frame swipe_scrolled (open_pinched_hand 0.3) 1000.12 \<and>
   prev_open_hand_y swipe_scrolled = Some 192 \<and>
   \<not> 1000.12 - last_scroll_time swipe_scrolled > SCROLL_COOLDOWN \<and>
   fst (recognize_gesture swipe_scrolled (Some (open_pinched_hand 0.3)) (480, 640) 1000.12)
     = result g_none None \<and>
   prev_open_hand_y
     (snd (recognize_gesture swipe_scrolled (Some (open_pinched_hand 0.3)) (480, 640) 1000.12))
     = Some 144"
  by (simp add: recognize_swipe_blocked[where ref = 192] open_hand_frame_example
      swipe_scrolled_eval palm_open_pinched_hand CLICK_COOLDOWN_def SCROLL_COOLDOWN_def
      SWIPE_THRESHOLD_def)

section \<open>The swipe reference after another pose\<close>

text \<open>
  Claim C6 at its failing input. After press, release and a first open-hand frame the
  swipe reference is 240. The next frame shows a hand that is not open (none of the
  pose conditions holds, the result is the idle one): the reference is still 240
  afterwards. The reset in \<open>detect_open_hand_swipe\<close> is never reached, since that
  function is called only when \<open>detect_open_hand\<close> holds.
\<close>

theorem swipe_reference_survives_idle_frame:
  "\<not> detect_open_hand idle_hand \<and>
   recognize_gesture swipe_ready (Some idle_hand) (480, 640) 1000.09 =
     (result g_none None, swipe_ready\<lparr>current_gesture := ''Idle''\<rparr>) \<and>
   prev_open_hand_y (snd (run init_detector
     [press_frame, idle_frame 1000.03, open_frame 0.5 1000.06, idle_frame 1000.09])) = Some 240"
proof -
  have a: "recognize_gesture swipe_ready (Some idle_hand) (480, 640) 1000.09 =
     (result g_none None, swipe_ready\<lparr>current_gesture := ''Idle''\<rparr>)"
    by (rule recognize_idle)
       (simp_all add: idle_hand_poses pinch_falls_through_def swipe_ready_eval)
  have b: "run init_detector [press_frame, idle_frame 1000.03, open_frame 0.5 1000.06] =
      ([result left_press None, result left_release None, result g_none None], swipe_ready)"
    using swipe_ready_outputs by (simp add: swipe_ready_def prod_eq_iff)
  have c: "run init_detector
     [press_frame, idle_frame 1000.03, open_frame 0.5 1000.06, idle_frame 1000.09] =
     ([result left_press None, result left_release None, result g_none None, result g_none None],
      swipe_ready\<lparr>current_gesture := ''Idle''\<rparr>)"
    using a b run_append[of init_detector "[press_frame, idle_frame 1000.03, open_frame 0.5 1000.06]" "[idle_frame 1000.09]"]
    by (simp add: idle_frame_def)
  show ?thesis using a c by (simp add: idle_hand_poses swipe_ready_eval)
qed

section \<open>The first open-hand frame\<close>

lemma or_else_result:
  assumes "\<And>r s'. blk s = (Some r, s') \<Longrightarrow> P r"
    and "\<And>s'. blk s = (None, s') \<Longrightarrow> P (fst (rest s'))"
  shows "P (fst (or_else blk rest s))"
  using assms by (cases "blk s") (auto simp: or_else_def split: option.splits)

lemma pinch_block_no_scroll: "pinch_block ps fw fh t s = (Some r, s') \<Longrightarrow> gtype r \<noteq> scroll"
  by (auto simp: pinch_block_def pinch_press_or_hold_def pinch_release_def result_def Let_def
      split: if_splits)

lemma fist_block_no_scroll: "fist_block ps t s = (Some r, s') \<Longrightarrow> gtype r \<noteq> scroll"
  by (auto simp: fist_block_def result_def split: if_splits)

lemma index_block_no_scroll: "index_block ps fw fh s = (Some r, s') \<Longrightarrow> gtype r \<noteq> scroll"
  by (auto simp: index_block_def result_def Let_def split: if_splits)

lemma thumb_index_open_block_no_scroll:
  "thumb_index_open_block ps s = (Some r, s') \<Longrightarrow> gtype r \<noteq> scroll"
  by (auto simp: thumb_index_open_block_def result_def split: if_splits)

lemma open_hand_block_no_scroll:
  "open_hand_block ps fh t s = (Some r, s') \<Longrightarrow> prev_open_hand_y s = None \<Longrightarrow>
   gtype r \<noteq> scroll"
  by (auto simp: open_hand_block_def detect_open_hand_swipe_def result_def split: if_splits)

lemma no_scroll_without_reference:
  assumes "prev_open_hand_y s = None"
  shows "gtype (fst (recognize_gesture s results fs t)) \<noteq> scroll"
proof (cases results)
  case None
  then show ?thesis by (simp add: recognize_no_hand result_def)
next
  case (Some ps)
  obtain fh fw where fs: "fs = (fh, fw)" by (cases fs)
  show ?thesis
    unfolding Some fs recognize_gesture_first_pass
  proof (rule or_else_result)
    fix r s' assume "pinch_block ps fw fh t s = (Some r, s')"
    then show "gtype r \<noteq> scroll" by (rule pinch_block_no_scroll)
  next
    fix s1 assume "pinch_block ps fw fh t s = (None, s1)"
    then have s1: "s1 = s" using pinch_block_falls by blast
    show "gtype (fst (or_else (fist_block ps t)
           (or_else (index_block ps fw fh)
           (or_else (thumb_index_open_block ps)
           (or_else (open_hand_block ps fh t) idle))) s1)) \<noteq> scroll"
      unfolding s1
    proof (rule or_else_result)
      fix r s' assume "fist_block ps t s = (Some r, s')"
      then show "gtype r \<noteq> scroll" by (rule fist_block_no_scroll)
    next
      fix s2 assume "fist_block ps t s = (None, s2)"
      then have s2: "s2 = s" using fist_block_falls by blast
      show "gtype (fst (or_else (index_block ps fw fh)
           (or_else (thumb_index_open_block ps)
           (or_else (open_hand_block ps fh t) idle)) s2)) \<noteq> scroll"
        unfolding s2
      proof (rule or_else_result)
        fix r s' assume "index_block ps fw fh s = (Some r, s')"
        then show "gtype r \<noteq> scroll" by (rule index_block_no_scroll)
      next
        fix s3 assume "index_block ps fw fh s = (None, s3)"
        then have s3: "s3 = s" using index_block_falls by blast
        show "gtype (fst (or_else (thumb_index_open_block ps)
           (or_else (open_hand_block ps fh t) idle) s3)) \<noteq> scroll"
          unfolding s3
        proof (rule or_else_result)
          fix r s' assume "thumb_index_open_block ps s = (Some r, s')"
          then show "gtype r \<noteq> scroll" by (rule thumb_index_open_block_no_scroll)
        next
          fix s4 assume "thumb_index_open_block ps s = (None, s4)"
          then have s4: "s4 = s" using thumb_index_open_block_falls by blast
          show "gtype (fst (or_else (open_hand_block ps fh t) idle s4)) \<noteq> scroll"
            unfolding s4
          proof (rule or_else_result)
            fix r s' assume "open_hand_block ps fh t s = (Some r, s')"
            then show "gtype r \<noteq> scroll" using assms by (rule open_hand_block_no_scroll)
          next
            fix s5
            show "gtype (fst (idle s5)) \<noteq> scroll" by (simp add: idle_def result_def)
          qed
        qed
      qed
    qed
  qed
qed

text \<open>
  The first open-hand frame only establishes the reference. On an open-hand frame
  that finds the swipe reference absent, the state machine sets the reference to the
  current palm Y (in pixels) and emits no command, wherever the hand is; and no frame
  that starts with the reference absent emits a scroll.
\<close>

theorem first_open_hand_frame_sets_reference:
  assumes "prev_open_hand_y s = None" and "open_hand_frame s ps current_time"
  shows "recognize_gesture s (Some ps) (fh, fw) current_time =
           (result g_none None,
            s\<lparr>prev_open_hand_y := Some (lm_y (palm ps) * real fh),
              current_gesture := ''Open Hand Ready''\<rparr>)
       \<and> (\<forall>results frame_shape.
            gtype (fst (recognize_gesture s results frame_shape current_time)) \<noteq> scroll)"
  using assms by (simp add: recognize_swipe_first no_scroll_without_reference)

theorem first_open_hand_frame_sets_reference_witness:
  "prev_open_hand_y swipe_lost = None \<and>
   open_hand_frame swipe_lost (open_pinched_hand 0.2) 1000.12 \<and>
   recognize_gesture swipe_lost (Some (open_pinched_hand 0.2)) (480, 640) 1000.12 =
     (result g_none None,
      swipe_lost\<lparr>prev_open_hand_y := Some 96, current_gesture := ''Open Hand Ready''\<rparr>)"
proof -
  have h1: "prev_open_hand_y swipe_lost = None"
    by (simp add: swipe_lost_def recognize_no_hand)
  have h2: "open_hand_frame swipe_lost (open_pinched_hand 0.2) 1000.12"
    by (simp add: swipe_lost_def recognize_no_hand open_hand_frame_example swipe_ready_eval
        CLICK_COOLDOWN_def)
  show ?thesis
    using first_open_hand_frame_sets_reference[OF h1 h2, of 480 640] h1 h2
    by (simp add: palm_open_pinched_hand)
qed

text \<open>
  Claim C10 at its failing input. A scroll does not take two consecutive open-hand
  frames: an open-hand frame, a frame with a hand in no pose, and an open-hand frame
  with the palm 48 pixels higher give a scroll on the third, because the reference
  set by the first survives the frame in between (the unreachable reset of claim
  C6).
\<close>

theorem scroll_without_consecutive_open_hand_frames:
  "\<not> detect_open_hand idle_hand \<and> \<not> detect_open_hand pinch_fist_hand \<and>
   fst (run init_detector
     [press_frame, idle_frame 1000.03, open_frame 0.5 1000.06, idle_frame 1000.09,
      open_frame 0.4 1000.12]) =
     [result left_press None, result left_release None, result g_none None,
      result g_none None, result scroll (Some (Direction down))]"
proof -
  have a: "recognize_gesture swipe_ready (Some idle_hand) (480, 640) 1000.09 =
     (result g_none None, swipe_ready\<lparr>current_gesture := ''Idle''\<rparr>)"
    by (rule recognize_idle)
       (simp_all add: idle_hand_poses pinch_falls_through_def swipe_ready_eval)
  have b: "run init_detector [press_frame, idle_frame 1000.03, open_frame 0.5 1000.06] =
      ([result left_press None, result left_release None, result g_none None], swipe_ready)"
    using swipe_ready_outputs by (simp add: swipe_ready_def prod_eq_iff)
  have c: "fst (recognize_gesture (swipe_ready\<lparr>current_gesture := ''Idle''\<rparr>)
      (Some (open_pinched_hand 0.4)) (480, 640) 1000.12) = result scroll (Some (Direction down))"
    by (simp add: recognize_swipe_down[where ref = 240] open_hand_frame_example
      swipe_ready_eval palm_open_pinched_hand CLICK_COOLDOWN_def SCROLL_COOLDOWN_def
      SWIPE_THRESHOLD_def)
  have d: "run init_detector
     ([press_frame, idle_frame 1000.03, open_frame 0.5 1000.06] @ [idle_frame 1000.09,
      open_frame 0.4 1000.12]) =
     (case run swipe_ready [idle_frame 1000.09, open_frame 0.4 1000.12] of (rs', s'') \<Rightarrow>
        ([result left_press None, result left_release None, result g_none None] @ rs', s''))"
    unfolding run_append b by simp
  have e: "\<not> detect_open_hand pinch_fist_hand"
    by (simp add: pinch_fist_hand_def detect_example)
  show ?thesis
    using d a c e by (simp add: idle_frame_def open_frame_def idle_hand_poses split: prod.splits)
qed

section \<open>Smoothing\<close>

lemma py_int_of_int: "py_int (real_of_int n) = n"
  by (simp add: py_int_def)

lemma map_coordinates_smoothing_independent:
  "map_coordinates (mc\<lparr>prev_mouse_x := a, prev_mouse_y := b\<rparr>) hx hy fw fh =
   map_coordinates mc hx hy fw fh"
  by (simp add: map_coordinates_def)

lemma move_mouse_first:
  assumes "map_coordinates mc hx hy fw fh = Inr (X, Y)"
    and "prev_mouse_x mc = None \<or> prev_mouse_y mc = None"
  shows "move_mouse mc hx hy fw fh =
     Inr (MoveTo X Y, mc\<lparr>prev_mouse_x := Some (real_of_int X), prev_mouse_y := Some (real_of_int Y)\<rparr>)"
  using assms by (auto simp: move_mouse_def smooth_coordinates_def split: option.splits)

lemma move_mouse_fixed_point:
  assumes "map_coordinates mc hx hy fw fh = Inr (X, Y)"
    and "prev_mouse_x mc = Some (real_of_int X)" "prev_mouse_y mc = Some (real_of_int Y)"
  shows "move_mouse mc hx hy fw fh = Inr (MoveTo X Y, mc)"
  using assms
  by (simp add: move_mouse_def smooth_coordinates_def SMOOTH_FACTOR_def py_int_of_int Let_def)

lemma move_all_fixed_point:
  assumes "map_coordinates mc hx hy fw fh = Inr (X, Y)"
    and "prev_mouse_x mc = Some (real_of_int X)" "prev_mouse_y mc = Some (real_of_int Y)"
  shows "move_all mc (replicate n (hx, hy)) fw fh = Inr (replicate n (MoveTo X Y), mc)"
  using assms by (induction n) (simp_all add: move_mouse_fixed_point)

lemma map_coordinates_defined:
  assumes "frame_width \<noteq> 0" "frame_height \<noteq> 0"
  shows "\<exists>X Y. map_coordinates mc hand_x hand_y frame_width frame_height = Inr (X, Y)"
  using assms by (simp add: map_coordinates_def Let_def)

text \<open>
  Claim C9. For every hand position and all frame dimensions other than zero,
  starting with no previous smoothed value: the first call returns the freshly mapped
  integer position unsmoothed, and every following call with the same position
  returns the same integer target again, the stored previous value being a fixed
  point of \<open>factor \<times> previous + (1 - factor) \<times> current\<close>.
\<close>

theorem move_idempotent:
  assumes "frame_width \<noteq> 0" and "frame_height \<noteq> 0"
    and "prev_mouse_x mc = None \<or> prev_mouse_y mc = None"
  shows "\<exists>X Y.
     map_coordinates mc hand_x hand_y frame_width frame_height = Inr (X, Y) \<and>
     move_all mc (replicate (Suc n) (hand_x, hand_y)) frame_width frame_height =
       Inr (replicate (Suc n) (MoveTo X Y),
            mc\<lparr>prev_mouse_x := Some (real_of_int X), prev_mouse_y := Some (real_of_int Y)\<rparr>)"
proof -
  obtain X Y where xy: "map_coordinates mc hand_x hand_y frame_width frame_height = Inr (X, Y)"
    using map_coordinates_defined[OF assms(1,2)] by blast
  let ?mc' = "mc\<lparr>prev_mouse_x := Some (real_of_int X), prev_mouse_y := Some (real_of_int Y)\<rparr>"
  have m: "map_coordinates ?mc' hand_x hand_y frame_width frame_height = Inr (X, Y)"
    using xy by (simp add: map_coordinates_smoothing_independent)
  have "move_all ?mc' (replicate n (hand_x, hand_y)) frame_width frame_height =
      Inr (replicate n (MoveTo X Y), ?mc')"
    by (rule move_all_fixed_point[OF m]) simp_all
  then have "move_all mc (replicate (Suc n) (hand_x, hand_y)) frame_width frame_height =
      Inr (replicate (Suc n) (MoveTo X Y), ?mc')"
    using move_mouse_first[OF xy assms(3)] by simp
  with xy show ?thesis by blast
qed

lemma map_coordinates_example:
  "map_coordinates (init_mouse 1920 1080) 448 240 640 480 = Inr (1324, 540)"
  by (simp add: map_coordinates_def init_mouse_def SCREEN_PADDING_def py_int_def Let_def)

theorem move_idempotent_witness:
  "(640::nat) \<noteq> 0 \<and> (480::nat) \<noteq> 0 \<and> prev_mouse_x (init_mouse 1920 1080) = None \<and>
   map_coordinates (init_mouse 1920 1080) 448 240 640 480 = Inr (1324, 540) \<and>
   move_all (init_mouse 1920 1080) [(448, 240), (448, 240), (448, 240)] 640 480 =
     Inr ([MoveTo 1324 540, MoveTo 1324 540, MoveTo 1324 540],
          (init_mouse 1920 1080)\<lparr>prev_mouse_x := Some 1324, prev_mouse_y := Some 540\<rparr>)"
proof -
  have h1: "(640::nat) \<noteq> 0" and h2: "(480::nat) \<noteq> 0" by simp_all
  have h3: "prev_mouse_x (init_mouse 1920 1080) = None \<or> prev_mouse_y (init_mouse 1920 1080) = None"
    by (simp add: init_mouse_def)
  have p: "prev_mouse_x (init_mouse 1920 1080) = None" by (simp add: init_mouse_def)
  have r: "replicate (Suc 2) (448::real, 240::real) = [(448, 240), (448, 240), (448, 240)]"
    by (simp add: numeral_2_eq_2)
  from move_idempotent[OF h1 h2 h3, of 448 240 2]
  obtain X Y where xy: "map_coordinates (init_mouse 1920 1080) 448 240 640 480 = Inr (X, Y)"
    and mv: "move_all (init_mouse 1920 1080) (replicate (Suc 2) (448, 240)) 640 480 =
       Inr (replicate (Suc 2) (MoveTo X Y),
            (init_mouse 1920 1080)\<lparr>prev_mouse_x := Some (real_of_int X),
               prev_mouse_y := Some (real_of_int Y)\<rparr>)"
    by blast
  from xy have "X = 1324" "Y = 540" by (simp_all add: map_coordinates_example)
  with mv have "move_all (init_mouse 1920 1080) [(448, 240), (448, 240), (448, 240)] 640 480 =
     Inr ([MoveTo 1324 540, MoveTo 1324 540, MoveTo 1324 540],
          (init_mouse 1920 1080)\<lparr>prev_mouse_x := Some 1324, prev_mouse_y := Some 540\<rparr>)"
    unfolding r by (simp add: numeral_2_eq_2)
  then show ?thesis using p map_coordinates_example by simp
qed

section \<open>Resetting the smoothing\<close>

lemma execute_gesture_keeps_smoothing:
  assumes "gtype g \<in> {left_press, left_hold, left_release, right_click, scroll}"
  shows "\<exists>a. execute_gesture mc g fw fh = Inr (a, mc)"
  using assms
  by (cases "gdata g") (auto simp: execute_gesture_def split: gesture_data.splits)

text \<open>
  Claim C7, as amended. After every pass of the frame loop whose gesture type is none
  (the hand is lost, or the pose is idle, thumb-and-index open, a fist inside its
  cooldown or an open hand that does not scroll) the stored previous smoothed
  coordinates are cleared. After a pass whose gesture is left press, left hold, left
  release, right click or scroll the pointer mapper's state is left as it was.
\<close>

theorem smoothing_reset:
  assumes "main_step (d, mc) fr = ((g, a), (d', mc'))"
  shows "(gtype g = g_none \<longrightarrow> prev_mouse_x mc' = None \<and> prev_mouse_y mc' = None)
       \<and> (gtype g \<in> {left_press, left_hold, left_release, right_click, scroll} \<longrightarrow> mc' = mc)"
proof -
  obtain results fs t where fr: "fr = (results, fs, t)" by (cases fr)
  obtain g0 d0 where rec: "recognize_gesture d results fs t = (g0, d0)"
    by (cases "recognize_gesture d results fs t")
  show ?thesis
  proof (cases "gtype g0 = g_none")
    case True
    then show ?thesis using assms
      by (auto simp: main_step_def fr rec reset_smoothing_def)
  next
    case False
    have g: "g = g0" using assms False
      by (auto simp: main_step_def fr rec split: sum.splits)
    have "mc' = mc" if "gtype g0 \<in> {left_press, left_hold, left_release, right_click, scroll}"
    proof -
      from execute_gesture_keeps_smoothing[OF that]
      obtain a' where "execute_gesture mc g0 FRAME_WIDTH FRAME_HEIGHT = Inr (a', mc)" by blast
      then show ?thesis using assms False by (simp add: main_step_def fr rec)
    qed
    then show ?thesis using False g by simp
  qed
qed

lemma moved_eval:
  "moved = (init_detector\<lparr>current_gesture := ''Move (Index Only)''\<rparr>,
            (init_mouse 1920 1080)\<lparr>prev_mouse_x := Some 1324, prev_mouse_y := Some 540\<rparr>)"
proof -
  have a: "recognize_gesture init_detector (Some index_only_hand) (480, 640) 1000 =
      (result move (Some (Position 448 240)), init_detector\<lparr>current_gesture := ''Move (Index Only)''\<rparr>)"
  proof -
    have p: "pinch_falls_through init_detector index_only_hand 1000"
      by (simp add: pinch_falls_through_def index_only_hand_poses init_detector_def)
    have sel: "lm_x (index index_only_hand) = 0.7" "lm_y (index index_only_hand) = 0.5"
      by (simp_all add: index_only_hand_def example_hand_sel)
    show ?thesis
      using recognize_move[OF p index_only_hand_poses(2,3), of 480 640] by (simp add: sel)
  qed
  have b: "move_mouse (init_mouse 1920 1080) 448 240 640 480 =
      Inr (MoveTo 1324 540,
           (init_mouse 1920 1080)\<lparr>prev_mouse_x := Some 1324, prev_mouse_y := Some 540\<rparr>)"
    using move_mouse_first[OF map_coordinates_example] by (simp add: init_mouse_def)
  show ?thesis
    by (simp add: moved_def main_step_def a b execute_gesture_def result_def
        FRAME_WIDTH_def FRAME_HEIGHT_def)
qed

lemma main_step_press_after_move:
  "main_step moved press_frame =
     ((result left_press None, Some MouseDown),
      (init_detector\<lparr>is_pinching := True, pinch_start_time := 1000, last_click_time := 1000,
         current_gesture := ''Pinch Start (Left Press)''\<rparr>,
       (init_mouse 1920 1080)\<lparr>prev_mouse_x := Some 1324, prev_mouse_y := Some 540\<rparr>))"
  by (simp add: moved_eval main_step_def press_frame_def recognize_press pinch_fist_hand_poses
      init_detector_def CLICK_COOLDOWN_def execute_gesture_def result_def)

lemma main_step_lost_after_move:
  "main_step moved (None, (480, 640), 1000.03) =
     ((result g_none None, None),
      (init_detector\<lparr>current_gesture := ''None''\<rparr>, init_mouse 1920 1080))"
  by (simp add: moved_eval main_step_def recognize_no_hand result_def reset_smoothing_def
      init_detector_def init_mouse_def)

theorem smoothing_reset_witness:
  "gtype (fst (fst (main_step moved (None, (480, 640), 1000.03)))) = g_none \<and>
   prev_mouse_x (snd (snd (main_step moved (None, (480, 640), 1000.03)))) = None \<and>
   prev_mouse_y (snd (snd (main_step moved (None, (480, 640), 1000.03)))) = None \<and>
   gtype (fst (fst (main_step moved press_frame))) = left_press \<and>
   snd (snd (main_step moved press_frame)) = snd moved"
proof -
  let ?lost = "main_step moved (None, (480, 640), 1000.03)"
  let ?press = "main_step moved press_frame"
  have e1: "main_step (fst moved, snd moved) (None, (480, 640), 1000.03) =
      ((fst (fst ?lost), snd (fst ?lost)), (fst (snd ?lost), snd (snd ?lost)))"
    by simp
  have e2: "main_step (fst moved, snd moved) press_frame =
      ((fst (fst ?press), snd (fst ?press)), (fst (snd ?press), snd (snd ?press)))"
    by simp
  have g1: "gtype (fst (fst ?lost)) = g_none"
    by (subst main_step_lost_after_move) (simp add: result_def)
  have g2: "gtype (fst (fst ?press)) = left_press"
    by (simp add: main_step_press_after_move result_def)
  from smoothing_reset[OF e1] g1
  have r1: "prev_mouse_x (snd (snd ?lost)) = None \<and> prev_mouse_y (snd (snd ?lost)) = None"
    by blast
  from smoothing_reset[OF e2] g2
  have r2: "snd (snd ?press) = snd moved"
    by simp
  show ?thesis using g1 g2 r1 r2 by blast
qed

text \<open>
  The claim as written fails on a press: after a move to (1324, 540), a frame that
  emits left press leaves the previous smoothed coordinates in place.
\<close>

theorem smoothing_reset_counterexample:
  "fst (main_step moved press_frame) = (result left_press None, Some MouseDown) \<and>
   prev_mouse_x (snd moved) = Some 1324 \<and> prev_mouse_y (snd moved) = Some 540 \<and>
   prev_mouse_x (snd (snd (main_step moved press_frame))) = Some 1324 \<and>
   prev_mouse_y (snd (snd (main_step moved press_frame))) = Some 540"
  by (simp add: main_step_press_after_move) (simp add: moved_eval)

end
